theory Spec2Isabelle
  imports Complex_Main "HOL-Library.AList"
begin

section \<open>The local store\<close>

text \<open>
  Both scripts keep their state in JSON files under \<open>data/\<close>. A file is read with
  \<open>JSON.parse(readFileSync(...))\<close> inside \<open>try\<close>; a file that is missing or does not parse
  makes the loader return an empty document. Only documents of the expected shape are
  modelled as \<open>Json\<close>: a file that parses to another JSON value (an array, \<open>null\<close>) is
  outside the type.
\<close>

datatype 'a stored = Missing | Unparseable string | Json 'a

type_synonym address = string
type_synonym txhash = string

text \<open>
  An entry of \<open>markets.json\<close>. The scripts read \<open>question\<close>, \<open>deadline\<close>,
  \<open>market_address\<close> and \<open>moltbook_post_id\<close> and write \<open>status\<close>, \<open>settled_tx\<close> and
  \<open>finalized_tx\<close>; the rule's source and the commitments are carried by the document
  and never read by them. An absent property is \<open>None\<close>. A document lists the own
  properties of the parsed object in order, one per name.
\<close>

record commitment =
  agent :: string
  position :: string
  confidence :: int

record market =
  m_id :: string
  m_question :: string
  m_deadline :: "string option"
  m_status :: string
  m_market_address :: "address option"
  m_moltbook_post_id :: "string option"
  m_rule_source :: "string option"
  m_commitments :: "commitment list"
  m_settled_tx :: "txhash option"
  m_finalized_tx :: "txhash option"

record markets_doc =
  markets :: "(string \<times> market) list"

definition loadMarkets :: "markets_doc stored \<Rightarrow> markets_doc" where
  "loadMarkets f = (case f of Json d \<Rightarrow> d | _ \<Rightarrow> \<lparr>markets = []\<rparr>)"

section \<open>The chain boundary of the settler\<close>

text \<open>
  What the six view calls of \<open>getMarketStatus\<close> return for one TruthMarket contract.
\<close>

record onchain =
  isSettled :: bool
  isFinalized :: bool
  adjudicator :: address
  question :: string
  deadline :: nat
  state :: nat

text \<open>
  A state-changing call through the wallet either rejects before anything is sent
  (\<open>await market.settle(...)\<close> throws), or is sent and its confirmation fails
  (\<open>await tx.wait()\<close> throws), or is mined in a block. The chain after the call is part
  of the answer. The contract itself is not part of the repository, so what a call does
  to the chain is a parameter.
\<close>

datatype ('r, 'c) tx_outcome =
    Rejected string
  | Reverted txhash string 'c
  | Mined txhash 'r 'c

text \<open>
  What every run of either script has: the wallet of \<open>PRIVATE_KEY\<close>, the clock
  (\<open>Date.now()\<close>, in milliseconds), and whether \<open>writeFileSync\<close> throws.
\<close>

record runtime =
  wallet_address :: address
  date_now :: int
  write_fails :: "string option"

text \<open>
  The settler's receipt of a mined call is read for its block number only. The calls
  take the chain, the contract, the signer and the arguments.
\<close>

record 'c settler_env = runtime +
  view :: "'c \<Rightarrow> address \<Rightarrow> string + onchain"
  view_outcome :: "'c \<Rightarrow> address \<Rightarrow> string + nat"
  send_settle :: "'c \<Rightarrow> address \<Rightarrow> address \<Rightarrow> int \<Rightarrow> int \<Rightarrow> (nat, 'c) tx_outcome"
  send_finalize :: "'c \<Rightarrow> address \<Rightarrow> address \<Rightarrow> (nat, 'c) tx_outcome"

section \<open>Constants of the settler\<close>

definition MARKET_STATES :: "string list" where
  "MARKET_STATES = [''PENDING'', ''LIVE'', ''SETTLING'', ''SETTLED'', ''FINALIZED'', ''CANCELLED'']"

definition OUTCOMES :: "string list" where
  "OUTCOMES = [''NO'', ''YES'', ''INVALID'']"

text \<open>A JavaScript value that may be \<open>null\<close> or \<open>undefined\<close>.\<close>

datatype 'a js = Null | Undefined | Val 'a

text \<open>\<open>xs[i]\<close> for a number \<open>i\<close>: \<open>undefined\<close> outside the array.\<close>

definition at_index :: "'a list \<Rightarrow> int \<Rightarrow> 'a js" where
  "at_index xs i = (if 0 \<le> i \<and> nat i < length xs then Val (xs ! nat i) else Undefined)"

text \<open>\<open>toLowerCase\<close> on the ASCII letters, which is all an address holds.\<close>

definition toLowerCase :: "string \<Rightarrow> string" where
  "toLowerCase s =
     map (\<lambda>c. case map_of (zip ''ABCDEFGHIJKLMNOPQRSTUVWXYZ''
                                   ''abcdefghijklmnopqrstuvwxyz'') c of
                Some l \<Rightarrow> l | None \<Rightarrow> c) s"

section \<open>getMarketStatus\<close>

record status =
  s_address :: address
  s_isSettled :: bool
  s_isFinalized :: bool
  s_adjudicator :: address
  s_question :: string
  s_deadline :: nat
  s_state :: nat
  s_stateStr :: string
  s_outcome :: "string js"
  s_isOurs :: bool

text \<open>
  The result is the status object, or \<open>Inl\<close> the message of the object
  \<open>{ address, error }\<close> built in the \<open>catch\<close>. \<open>new Date(ms).toISOString()\<close> throws a
  RangeError beyond 8.64e15 ms, inside the same \<open>try\<close>; the text of \<open>deadlineDate\<close> itself
  is display only and is left out of the record.
\<close>

definition getMarketStatus :: "'c settler_env \<Rightarrow> 'c \<Rightarrow> address \<Rightarrow> string + status" where
  "getMarketStatus E c marketAddress =
     (case view E c marketAddress of
        Inl msg \<Rightarrow> Inl msg
      | Inr v \<Rightarrow>
          (case (if isSettled v
                 then (case view_outcome E c marketAddress of
                         Inl msg \<Rightarrow> Inl msg | Inr n \<Rightarrow> Inr (Val n))
                 else Inr Null) of
             Inl msg \<Rightarrow> Inl msg
           | Inr outcome \<Rightarrow>
               if 8640000000000000 < deadline v * 1000 then Inl ''Invalid time value''
               else Inr \<lparr> s_address = marketAddress,
                          s_isSettled = isSettled v,
                          s_isFinalized = isFinalized v,
                          s_adjudicator = adjudicator v,
                          s_question = question v,
                          s_deadline = deadline v,
                          s_state = state v,
                          s_stateStr = (case at_index MARKET_STATES (int (state v)) of
                                          Val s \<Rightarrow> s | _ \<Rightarrow> ''UNKNOWN''),
                          s_outcome = (case outcome of
                                         Val n \<Rightarrow> at_index OUTCOMES (int n)
                                       | _ \<Rightarrow> Null),
                          s_isOurs = (toLowerCase (adjudicator v)
                                        = toLowerCase (wallet_address E)) \<rparr>))"

section \<open>settle and finalize\<close>

text \<open>
  A run returns the file and the chain as it leaves them, the state-changing contract
  methods it invoked (in order, whatever became of them) and the lines it printed.
  \<open>outcomeInt\<close> is the integer the command line gives through \<open>parseInt\<close>; its
  \<open>NaN\<close> is left out, a value ethers rejects before sending like any other that is
  not a \<open>uint8\<close>, which \<open>Rejected\<close> covers.
\<close>

record create_args =
  a_question :: string
  a_startTime :: int
  a_deadline :: int
  a_adjudicator :: address
  a_guardian :: address
  a_initialLiquidity :: nat
  a_adjudicatorAgentId :: nat
  a_adjudicatorMinValidators :: nat

text \<open>The state-changing contract methods the scripts invoke, with their arguments.\<close>

datatype call =
    SettleCall address int int
  | FinalizeCall address
  | ApproveCall address nat
  | CreateMarketCall create_args

datatype console =
    Settling_market address
  | Outcome_line int "string js"
  | Error_line string
  | Not_our_market "address js"
  | Already_settled "string js"
  | Calling_settle int int
  | TX_line txhash
  | Settled_in_block nat
  | TX_failed string
  | Finalizing_market address
  | Not_settled_yet
  | Already_finalized
  | Calling_finalize
  | Finalized_in_block nat
  | Market_not_found string
  | Already_synced "address js"
  | Creating_for string string
  | Deadline_already_passed "string option"
  | USDC_balance nat nat
  | Insufficient_USDC nat nat
  | Approving_USDC
  | Approved_max
  | Creating_market
  | Tx_receipt txhash
  | No_MarketCreated_event
  | Market_created address
  | Mapping_saved
  | Uncaught string

record ('d, 'c) run =
  file_after :: "'d stored"
  chain_after :: 'c
  calls :: "call list"
  printed :: "console list"

text \<open>
  The loop over \<open>Object.values(db.markets)\<close> after a mined transaction: every entry
  whose \<open>market_address\<close> is strictly equal to the argument is updated in place.
\<close>

definition mark_settling :: "address \<Rightarrow> txhash \<Rightarrow> markets_doc \<Rightarrow> markets_doc" where
  "mark_settling marketAddress h db =
     db\<lparr>markets := map (\<lambda>(k, m). (k, if m_market_address m = Some marketAddress
                                       then m\<lparr>m_status := ''settling'', m_settled_tx := Some h\<rparr>
                                       else m)) (markets db)\<rparr>"

definition mark_finalized :: "address \<Rightarrow> txhash \<Rightarrow> markets_doc \<Rightarrow> markets_doc" where
  "mark_finalized marketAddress h db =
     db\<lparr>markets := map (\<lambda>(k, m). (k, if m_market_address m = Some marketAddress
                                       then m\<lparr>m_status := ''finalized'', m_finalized_tx := Some h\<rparr>
                                       else m)) (markets db)\<rparr>"

text \<open>
  \<open>saveMarkets\<close> inside the \<open>try\<close>: a write that throws is caught by the same \<open>catch\<close> as a
  failed transaction and leaves the file as it was.
\<close>

definition saveMarkets ::
  "'c settler_env \<Rightarrow> markets_doc \<Rightarrow> markets_doc stored \<Rightarrow> string + markets_doc stored" where
  "saveMarkets E db f = (case write_fails E of Some msg \<Rightarrow> Inl msg | None \<Rightarrow> Inr (Json db))"

definition settle ::
  "'c settler_env \<Rightarrow> address \<Rightarrow> int \<Rightarrow> markets_doc stored \<times> 'c \<Rightarrow> (markets_doc, 'c) run" where
  "settle E marketAddress outcomeInt w =
     (let f = fst w; c = snd w;
          head = [Settling_market marketAddress,
                  Outcome_line outcomeInt (at_index OUTCOMES outcomeInt)];
          stop = (\<lambda>ls. \<lparr>file_after = f, chain_after = c, calls = [], printed = head @ ls\<rparr>)
      in case getMarketStatus E c marketAddress of
           Inl msg \<Rightarrow> if msg \<noteq> [] then stop [Error_line msg]
                      else stop [Not_our_market Undefined]
         | Inr st \<Rightarrow>
             if \<not> s_isOurs st then stop [Not_our_market (Val (s_adjudicator st))]
             else if s_isSettled st then stop [Already_settled (s_outcome st)]
             else
               (let tStar = date_now E div 1000;
                    sent = [SettleCall marketAddress outcomeInt tStar];
                    head2 = head @ [Calling_settle outcomeInt tStar]
                in case send_settle E c marketAddress (wallet_address E) outcomeInt tStar of
                     Rejected msg \<Rightarrow>
                       \<lparr>file_after = f, chain_after = c, calls = sent,
                        printed = head2 @ [TX_failed msg]\<rparr>
                   | Reverted h msg c' \<Rightarrow>
                       \<lparr>file_after = f, chain_after = c', calls = sent,
                        printed = head2 @ [TX_line h, TX_failed msg]\<rparr>
                   | Mined h b c' \<Rightarrow>
                       (case saveMarkets E (mark_settling marketAddress h (loadMarkets f)) f of
                          Inl msg \<Rightarrow>
                            \<lparr>file_after = f, chain_after = c', calls = sent,
                             printed = head2 @ [TX_line h, Settled_in_block b, TX_failed msg]\<rparr>
                        | Inr f' \<Rightarrow>
                            \<lparr>file_after = f', chain_after = c', calls = sent,
                             printed = head2 @ [TX_line h, Settled_in_block b]\<rparr>)))"

definition finalize ::
  "'c settler_env \<Rightarrow> address \<Rightarrow> markets_doc stored \<times> 'c \<Rightarrow> (markets_doc, 'c) run" where
  "finalize E marketAddress w =
     (let f = fst w; c = snd w;
          head = [Finalizing_market marketAddress];
          stop = (\<lambda>ls. \<lparr>file_after = f, chain_after = c, calls = [], printed = head @ ls\<rparr>)
      in case getMarketStatus E c marketAddress of
           Inl msg \<Rightarrow> if msg \<noteq> [] then stop [Error_line msg]
                      else stop [Not_settled_yet]
         | Inr st \<Rightarrow>
             if \<not> s_isSettled st then stop [Not_settled_yet]
             else if s_isFinalized st then stop [Already_finalized]
             else
               (let sent = [FinalizeCall marketAddress];
                    head2 = head @ [Calling_finalize]
                in case send_finalize E c marketAddress (wallet_address E) of
                     Rejected msg \<Rightarrow>
                       \<lparr>file_after = f, chain_after = c, calls = sent,
                        printed = head2 @ [TX_failed msg]\<rparr>
                   | Reverted h msg c' \<Rightarrow>
                       \<lparr>file_after = f, chain_after = c', calls = sent,
                        printed = head2 @ [TX_line h, TX_failed msg]\<rparr>
                   | Mined h b c' \<Rightarrow>
                       (case saveMarkets E (mark_finalized marketAddress h (loadMarkets f)) f of
                          Inl msg \<Rightarrow>
                            \<lparr>file_after = f, chain_after = c', calls = sent,
                             printed = head2 @ [TX_line h, Finalized_in_block b, TX_failed msg]\<rparr>
                        | Inr f' \<Rightarrow>
                            \<lparr>file_after = f', chain_after = c', calls = sent,
                             printed = head2 @ [TX_line h, Finalized_in_block b]\<rparr>)))"

text \<open>
  What a fresh read says about a market, and the same environment at a later moment
  (another clock, another fate of the write).
\<close>

definition reports_settled :: "'c settler_env \<Rightarrow> 'c \<Rightarrow> address \<Rightarrow> bool" where
  "reports_settled E c a = (case view E c a of Inr v \<Rightarrow> isSettled v | Inl _ \<Rightarrow> False)"

definition reports_finalized :: "'c settler_env \<Rightarrow> 'c \<Rightarrow> address \<Rightarrow> bool" where
  "reports_finalized E c a = (case view E c a of Inr v \<Rightarrow> isFinalized v | Inl _ \<Rightarrow> False)"

definition later :: "'c settler_env \<Rightarrow> int \<Rightarrow> string option \<Rightarrow> 'c settler_env" where
  "later E t wr = E\<lparr>date_now := t, write_fails := wr\<rparr>"

section \<open>The market creator\<close>

record mapping =
  mp_moltbook_id :: string
  mp_moltbook_post_id :: "string option"
  mp_chain :: string
  mp_chain_id :: nat
  mp_market_address :: address
  mp_question :: string
  mp_status :: string
  mp_created_at :: string

record mappings_doc =
  mappings :: "(string \<times> mapping) list"
  onchain_only :: "(string \<times> string) list"

definition loadMappings :: "mappings_doc stored \<Rightarrow> mappings_doc" where
  "loadMappings f = (case f of Json d \<Rightarrow> d | _ \<Rightarrow> \<lparr>mappings = [], onchain_only = []\<rparr>)"

definition LaunchpadEngine :: address where
  "LaunchpadEngine = ''0x744724aa5b389644f31dfcfbb67786b581602084''"

definition MockUSDC :: address where
  "MockUSDC = ''0x3b2f5a6e16cb5d5cf277f8718a9add3af0b1222a''"

definition ProtocolConfig :: address where
  "ProtocolConfig = ''0x6784f9b2e3a629c94cc05b441b6fdec4a6890830''"

definition MaxUint256 :: nat where
  "MaxUint256 = 2 ^ 256 - 1"

text \<open>
  The fixed liquidity and the balance it needs, in the script's BigInt arithmetic
  (division truncates; all operands are positive).
\<close>

definition liquidity :: nat where
  "liquidity = 1000 * 10 ^ 18"

definition estimatedDeposit :: nat where
  "estimatedDeposit = liquidity * 693 div 1000"

definition depositUsdc :: nat where
  "depositUsdc = estimatedDeposit div 10 ^ 12"

record log_entry =
  topics :: "string list"

text \<open>
  The creator's side of the chain boundary. \<open>ethers.id\<close> of the event signature and
  \<open>ethers.getAddress\<close> are library functions and \<open>new Date(s).getTime()\<close> is the
  platform's parser (\<open>None\<close> is \<open>NaN\<close>, which an absent deadline gives too); they are
  parameters. The receipt of a mined call is read for its logs.
\<close>

record 'c creator_env = runtime +
  balanceOf :: "'c \<Rightarrow> address \<Rightarrow> string + nat"
  send_approve :: "'c \<Rightarrow> address \<Rightarrow> address \<Rightarrow> nat \<Rightarrow> (unit, 'c) tx_outcome"
  send_createMarket :: "'c \<Rightarrow> address \<Rightarrow> create_args \<Rightarrow> (log_entry list, 'c) tx_outcome"
  marketCreatedTopic :: string
  getAddress :: "string \<Rightarrow> string + address"
  getTime :: "string option \<Rightarrow> int option"
  toISOString_now :: string

definition saveMappings ::
  "'c creator_env \<Rightarrow> mappings_doc \<Rightarrow> mappings_doc stored \<Rightarrow> string + mappings_doc stored" where
  "saveMappings E d f = (case write_fails E of Some msg \<Rightarrow> Inl msg | None \<Rightarrow> Inr (Json d))"

text \<open>
  \<open>obj[key]\<close> on an object that \<open>JSON.parse\<close> made: the object's own property of that
  name, else the member of that name inherited from \<open>Object.prototype\<close> (a function, or
  the prototype itself for \<open>__proto__\<close>: truthy, and without any of the properties the
  script goes on to read), else \<open>undefined\<close>.
\<close>

definition Object_prototype :: "string list" where
  "Object_prototype =
     [''constructor'', ''__defineGetter__'', ''__defineSetter__'', ''hasOwnProperty'',
      ''__lookupGetter__'', ''__lookupSetter__'', ''isPrototypeOf'',
      ''propertyIsEnumerable'', ''toString'', ''valueOf'', ''__proto__'',
      ''toLocaleString'']"

datatype 'a property = Own 'a | Inherited | Absent

definition js_get :: "(string \<times> 'a) list \<Rightarrow> string \<Rightarrow> 'a property" where
  "js_get obj key =
     (case map_of obj key of
        Some v \<Rightarrow> Own v
      | None \<Rightarrow> if key \<in> set Object_prototype then Inherited else Absent)"

text \<open>
  ethers encodes the arguments of a call before anything leaves the process. A
  JavaScript number given for a \<open>uint64\<close> must be an integer from \<open>0\<close> to \<open>2\<^sup>5\<^sup>3 - 1\<close>;
  \<open>NaN\<close> (\<open>None\<close>) and any other number make the method throw, and nothing is sent.
\<close>

definition encodable :: "int option \<Rightarrow> bool" where
  "encodable n = (case n of Some v \<Rightarrow> 0 \<le> v \<and> v \<le> 9007199254740991 | None \<Rightarrow> False)"

text \<open>
  \<open>create\<close> has no \<open>try\<close>: a rejected promise or a thrown error ends the run in
  \<open>main().catch(console.error)\<close>, printed here as \<open>Uncaught\<close>. The comparison
  \<open>deadline <= now\<close> is false when \<open>deadline\<close> is \<open>NaN\<close>, so an unparseable deadline goes
  on to the approval and stops at \<open>createMarket\<close>, which cannot encode it. The calls of
  a run of \<open>create\<close> are those whose arguments ethers has encoded. Where the market read
  is an inherited member, \<open>market.question\<close> prints as \<open>undefined\<close> and the other
  properties are absent.
\<close>

definition create ::
  "'c creator_env \<Rightarrow> string \<Rightarrow> markets_doc stored \<Rightarrow> mappings_doc stored \<times> 'c
     \<Rightarrow> (mappings_doc, 'c) run" where
  "create E marketId marketsFile w =
     (let f = fst w; c = snd w;
          halt = (\<lambda>c' cs ls. \<lparr>file_after = f, chain_after = c', calls = cs, printed = ls\<rparr>);
          market = js_get (markets (loadMarkets marketsFile)) marketId
      in if market = Absent then halt c [] [Market_not_found marketId]
         else
        (case js_get (mappings (loadMappings f)) marketId of
           Own mp \<Rightarrow> halt c [] [Already_synced (Val (mp_market_address mp))]
         | Inherited \<Rightarrow> halt c [] [Already_synced Undefined]
         | Absent \<Rightarrow>
        (let market_question = (case market of Own m \<Rightarrow> m_question m | _ \<Rightarrow> ''undefined'');
             deadlineStr = (case market of Own m \<Rightarrow> m_deadline m | _ \<Rightarrow> None);
             post_id = (case market of Own m \<Rightarrow> m_moltbook_post_id m | _ \<Rightarrow> None);
             head = [Creating_for marketId market_question];
             deadline = map_option (\<lambda>ms. ms div 1000) (getTime E deadlineStr);
             now = date_now E div 1000
         in if (case deadline of Some d \<Rightarrow> d \<le> now | None \<Rightarrow> False)
            then halt c [] (head @ [Deadline_already_passed deadlineStr])
            else
        (let question = ''@SoothSayer '' @ market_question
         in case balanceOf E c (wallet_address E) of
              Inl msg \<Rightarrow> halt c [] (head @ [Uncaught msg])
            | Inr balance \<Rightarrow>
        (let head2 = head @ [USDC_balance balance depositUsdc]
         in if balance < depositUsdc
            then halt c [] (head2 @ [Insufficient_USDC depositUsdc balance])
            else
        (let approve = ApproveCall LaunchpadEngine MaxUint256;
             head3 = head2 @ [Approving_USDC]
         in case send_approve E c (wallet_address E) LaunchpadEngine MaxUint256 of
              Rejected msg \<Rightarrow> halt c [approve] (head3 @ [Uncaught msg])
            | Reverted h msg c1 \<Rightarrow> halt c1 [approve] (head3 @ [Uncaught msg])
            | Mined h u c1 \<Rightarrow>
        (let startTime = now + 60;
             head4 = head3 @ [Approved_max, Creating_market]
         in case (if encodable (Some startTime) \<and> encodable deadline then deadline
                  else None) of
              None \<Rightarrow> halt c1 [approve] (head4 @ [Uncaught ''INVALID_ARGUMENT''])
            | Some d \<Rightarrow>
        (let args = \<lparr> a_question = question,
                       a_startTime = startTime,
                       a_deadline = d,
                       a_adjudicator = wallet_address E,
                       a_guardian = ProtocolConfig,
                       a_initialLiquidity = liquidity,
                       a_adjudicatorAgentId = 0,
                       a_adjudicatorMinValidators = 0 \<rparr>;
             sent = [approve, CreateMarketCall args]
         in case send_createMarket E c1 (wallet_address E) args of
              Rejected msg \<Rightarrow> halt c1 sent (head4 @ [Uncaught msg])
            | Reverted h msg c2 \<Rightarrow> halt c2 sent (head4 @ [Uncaught msg])
            | Mined h logs c2 \<Rightarrow>
        (let head5 = head4 @ [Tx_receipt h]
         in case find (\<lambda>l. at_index (topics l) 0 = Val (marketCreatedTopic E)) logs of
              None \<Rightarrow> halt c2 sent (head5 @ [No_MarketCreated_event])
            | Some l \<Rightarrow>
        (case at_index (topics l) 1 of
           Val t1 \<Rightarrow>
             (case getAddress E (''0x'' @ drop 26 t1) of
                Inl msg \<Rightarrow> halt c2 sent (head5 @ [Uncaught msg])
              | Inr marketAddress \<Rightarrow>
                  (let entry = \<lparr> mp_moltbook_id = marketId,
                                  mp_moltbook_post_id = post_id,
                                  mp_chain = ''monad-testnet'',
                                  mp_chain_id = 10143,
                                  mp_market_address = marketAddress,
                                  mp_question = question,
                                  mp_status = ''live'',
                                  mp_created_at = toISOString_now E \<rparr>;
                       mappings' = (loadMappings f)
                                     \<lparr>mappings := AList.update marketId entry
                                                    (mappings (loadMappings f))\<rparr>;
                       head6 = head5 @ [Market_created marketAddress]
                   in case saveMappings E mappings' f of
                        Inl msg \<Rightarrow> halt c2 sent (head6 @ [Uncaught msg])
                      | Inr f' \<Rightarrow>
                          \<lparr>file_after = f', chain_after = c2, calls = sent,
                           printed = head6 @ [Mapping_saved]\<rparr>))
         | _ \<Rightarrow> halt c2 sent (head5 @ [Uncaught ''TypeError''])))))))))))"

section \<open>The question parser of the protocol document\<close>

text \<open>
  \<open>parse_question\<close> and \<open>_save_tag\<close> are Python. A Python string is a sequence of code
  points, and the markers are the section sign U+00A7, so text is a list of code
  points here; \<open>u\<close> embeds an ASCII literal.
\<close>

type_synonym pystr = "nat list"

definition u :: "string \<Rightarrow> pystr" where
  "u s = map of_char s"
























section \<open>Scoring\<close>

datatype outcome = YES | NO | INVALID

definition label :: "outcome \<Rightarrow> string" where
  "label out = (case out of YES \<Rightarrow> ''YES'' | NO \<Rightarrow> ''NO'' | INVALID \<Rightarrow> ''INVALID'')"

text \<open>
  Modelled from the spec: the scoring function \<open>score(commitment, outcome)\<close> of the
  adjudicator is not among the sources, which only document the formula. With
  \<open>p = confidence / 100\<close> and \<open>o = 1\<close> if the commitment's position matches the winning
  outcome, else \<open>0\<close>, the score is \<open>1 - (p - o)\<^sup>2\<close>; a commitment on a market whose outcome
  is INVALID has no score.
\<close>

definition score :: "commitment \<Rightarrow> outcome \<Rightarrow> real option" where
  "score c out =
     (case out of
        INVALID \<Rightarrow> None
      | _ \<Rightarrow> Some (1 - (real_of_int (confidence c) / 100
                          - (if position c = label out then 1 else 0))\<^sup>2))"

section \<open>The eligibility rule of the specification\<close>

text \<open>
  The graduation criteria as the specification words them, for comparison with what
  \<open>create\<close> checks: at least five commitments, at least three distinct agents, at
  least seven days to the deadline at evaluation time, and a rule source other than
  \<open>manual\<close>.
\<close>

definition spec_eligible :: "'c creator_env \<Rightarrow> market \<Rightarrow> bool" where
  "spec_eligible E m =
     (5 \<le> length (m_commitments m)
      \<and> 3 \<le> length (remdups (map agent (m_commitments m)))
      \<and> (case getTime E (m_deadline m) of
            Some ms \<Rightarrow> 7 * 24 * 3600 * 1000 \<le> ms - date_now E
          | None \<Rightarrow> False)
      \<and> m_rule_source m \<noteq> Some ''manual'')"

section \<open>Example inputs\<close>

text \<open>
  One TruthMarket contract as the whole chain: a mined \<open>settle\<close> makes \<open>isSettled\<close> true,
  a mined \<open>finalize\<close> makes \<open>isFinalized\<close> true.
\<close>

definition live_chain :: onchain where
  "live_chain = \<lparr> isSettled = False, isFinalized = False, adjudicator = ''0xAbC1'',
                   question = ''@SoothSayer Will BTC hit 75000?'', deadline = 1771545600,
                   state = 1 \<rparr>"

definition settled_chain :: onchain where
  "settled_chain = live_chain\<lparr>isSettled := True, state := 3\<rparr>"

definition finalized_chain :: onchain where
  "finalized_chain = settled_chain\<lparr>isFinalized := True, state := 4\<rparr>"

definition foreign_chain :: onchain where
  "foreign_chain = live_chain\<lparr>adjudicator := ''0xFfFf''\<rparr>"

definition honest_env :: "onchain settler_env" where
  "honest_env =
     \<lparr> wallet_address = ''0xabc1'', date_now = 1771632000123, write_fails = None,
       view = (\<lambda>c a. Inr c),
       view_outcome = (\<lambda>c a. Inr 1),
       send_settle = (\<lambda>c a w oc t. Mined ''0x5e771e'' 42 (c\<lparr>isSettled := True, state := 3\<rparr>)),
       send_finalize = (\<lambda>c a w. Mined ''0xf17a1'' 99 (c\<lparr>isFinalized := True, state := 4\<rparr>)) \<rparr>"

definition reverting_env :: "onchain settler_env" where
  "reverting_env =
     honest_env\<lparr> send_settle := (\<lambda>c a w oc t. Reverted ''0xbad1'' ''execution reverted'' c),
                 send_finalize := (\<lambda>c a w. Reverted ''0xbad2'' ''execution reverted'' c) \<rparr>"

definition open_market :: market where
  "open_market =
     \<lparr> m_id = ''mkt_1'', m_question = ''Will BTC hit 75000?'',
       m_deadline = Some ''2026-02-20'', m_status = ''open'',
       m_market_address = Some ''0xM1'', m_moltbook_post_id = Some ''post-1'',
       m_rule_source = Some ''manual'', m_commitments = [],
       m_settled_tx = None, m_finalized_tx = None \<rparr>"

definition one_market :: markets_doc where
  "one_market = \<lparr> markets = [(''mkt_1'', open_market)] \<rparr>"

text \<open>A store whose first market is already \<open>finalized\<close> locally, beside another market.\<close>

definition other_market :: market where
  "other_market = open_market\<lparr>m_id := ''mkt_2'', m_status := ''finalized'',
                                m_market_address := Some ''0xM2''\<rparr>"

definition two_markets :: markets_doc where
  "two_markets = \<lparr> markets = [(''mkt_1'', open_market\<lparr>m_status := ''finalized''\<rparr>),
                              (''mkt_2'', other_market)] \<rparr>"

text \<open>
  For the creator the chain is the wallet's USDC balance; the clock is one day before
  the deadline of \<open>open_market\<close>.
\<close>

definition creator_env :: "nat creator_env" where
  "creator_env =
     \<lparr> wallet_address = ''0xabc1'', date_now = 1771459200000, write_fails = None,
       balanceOf = (\<lambda>c a. Inr c),
       send_approve = (\<lambda>c w s n. Mined ''0xa1'' () c),
       send_createMarket =
         (\<lambda>c w args. Mined ''0xc1''
            [\<lparr>topics = [''0xtopic'', ''0x000000000000000000000000feed'']\<rparr>] (c - 693000000)),
       marketCreatedTopic = ''0xtopic'',
       getAddress = (\<lambda>s. Inr s),
       getTime = (\<lambda>s. if s = Some ''2026-02-20'' then Some 1771545600000 else None),
       toISOString_now = ''2026-02-19T00:00:00.000Z'' \<rparr>"

text \<open>
  The same creator on a chain whose receipts carry no \<open>MarketCreated\<close> log, and a store
  that is absent while the market id names a member of \<open>Object.prototype\<close>.
\<close>

definition logless_env :: "nat creator_env" where
  "logless_env = creator_env\<lparr> send_createMarket := (\<lambda>c w args. Mined ''0xc1'' [] (c - 693000000)) \<rparr>"

definition feed_mapping :: mapping where
  "feed_mapping =
     \<lparr> mp_moltbook_id = ''mkt_1'', mp_moltbook_post_id = Some ''post-1'',
       mp_chain = ''monad-testnet'', mp_chain_id = 10143, mp_market_address = ''0xfeed'',
       mp_question = ''@SoothSayer Will BTC hit 75000?'', mp_status = ''live'',
       mp_created_at = ''2026-02-19T00:00:00.000Z'' \<rparr>"

text \<open>
  A market that exists only locally (no commitments, a manual rule, a deadline one day
  ahead), and a mappings file that already maps it.
\<close>

definition virtual_market :: market where
  "virtual_market = open_market\<lparr>m_market_address := None\<rparr>"

definition virtual_doc :: markets_doc where
  "virtual_doc = \<lparr> markets = [(''mkt_1'', virtual_market)] \<rparr>"

definition mapped_doc :: mappings_doc where
  "mapped_doc = \<lparr> mappings = [(''mkt_1'', feed_mapping)], onchain_only = [] \<rparr>"



section \<open>Facts about the settler\<close>

lemma status_fields:
  "getMarketStatus E c a = Inr st \<Longrightarrow>
     \<exists>v. view E c a = Inr v \<and> s_isSettled st = isSettled v \<and> s_isFinalized st = isFinalized v
        \<and> s_adjudicator st = adjudicator v
        \<and> s_isOurs st = (toLowerCase (adjudicator v) = toLowerCase (wallet_address E))"
  by (auto simp: getMarketStatus_def split: sum.splits if_splits)


lemmas run_splits = sum.splits if_splits tx_outcome.splits option.splits

lemma settle_guard:
  "calls (settle E a oc (f, c)) = [] \<longleftrightarrow>
     (case getMarketStatus E c a of Inl _ \<Rightarrow> True | Inr st \<Rightarrow> \<not> s_isOurs st \<or> s_isSettled st)"
  by (auto simp: settle_def Let_def saveMarkets_def split: run_splits)


lemma settle_quiet:
  "calls (settle E a oc (f, c)) = [] \<Longrightarrow>
     file_after (settle E a oc (f, c)) = f \<and> chain_after (settle E a oc (f, c)) = c"
  by (auto simp: settle_def Let_def saveMarkets_def split: run_splits)







lemmas settler_eval =
  settle_def finalize_def getMarketStatus_def saveMarkets_def loadMarkets_def
  mark_settling_def mark_finalized_def at_index_def OUTCOMES_def MARKET_STATES_def
  toLowerCase_def reports_settled_def reports_finalized_def later_def Let_def
  honest_env_def reverting_env_def live_chain_def settled_chain_def finalized_chain_def
  foreign_chain_def one_market_def open_market_def

section \<open>Settlement is not repeated once the chain reports it\<close>





section \<open>A failed transaction writes nothing\<close>

lemma settle_failed:
  assumes "calls (settle E a oc (f, c)) \<noteq> []"
    and "send_settle E c a (wallet_address E) oc (date_now E div 1000) = Rejected msg
         \<or> send_settle E c a (wallet_address E) oc (date_now E div 1000) = Reverted h msg c'"
  shows "file_after (settle E a oc (f, c)) = f \<and> last (printed (settle E a oc (f, c))) = TX_failed msg"
  using assms
  by (auto simp: settle_def Let_def split: sum.splits if_splits)

lemma finalize_failed:
  assumes "calls (finalize E a (f, c)) \<noteq> []"
    and "send_finalize E c a (wallet_address E) = Rejected msg
         \<or> send_finalize E c a (wallet_address E) = Reverted h msg c'"
  shows "file_after (finalize E a (f, c)) = f \<and> last (printed (finalize E a (f, c))) = TX_failed msg"
  using assms
  by (auto simp: finalize_def Let_def split: sum.splits if_splits)

text \<open>
  C5. Whenever \<open>settle\<close> or \<open>finalize\<close> has invoked its contract method and the call is
  rejected at submission or fails at confirmation, the markets file is exactly as it
  was (no status, no transaction hash, no other field is written) and the last line
  printed reports the failure with its message.
\<close>

theorem failed_transaction_leaves_store:
  "(calls (settle E a oc (f, c)) \<noteq> []
      \<and> (send_settle E c a (wallet_address E) oc (date_now E div 1000) = Rejected msg
          \<or> send_settle E c a (wallet_address E) oc (date_now E div 1000) = Reverted h msg c')
    \<longrightarrow> file_after (settle E a oc (f, c)) = f
        \<and> last (printed (settle E a oc (f, c))) = TX_failed msg)
   \<and> (calls (finalize E a (f, d)) \<noteq> []
      \<and> (send_finalize E d a (wallet_address E) = Rejected msg
          \<or> send_finalize E d a (wallet_address E) = Reverted k msg d')
    \<longrightarrow> file_after (finalize E a (f, d)) = f
        \<and> last (printed (finalize E a (f, d))) = TX_failed msg)"
  using settle_failed [of E a oc f c msg h c'] finalize_failed [of E a f d msg k d']
  by simp

text \<open>C5 at a reverting \<open>settle\<close> and a reverting \<open>finalize\<close>.\<close>

theorem failed_transaction_leaves_store_witness:
  "calls (settle reverting_env ''0xM1'' 1 (Json one_market, live_chain)) \<noteq> []
   \<and> send_settle reverting_env live_chain ''0xM1'' (wallet_address reverting_env) 1
        (date_now reverting_env div 1000) = Reverted ''0xbad1'' ''execution reverted'' live_chain
   \<and> file_after (settle reverting_env ''0xM1'' 1 (Json one_market, live_chain)) = Json one_market
   \<and> last (printed (settle reverting_env ''0xM1'' 1 (Json one_market, live_chain)))
       = TX_failed ''execution reverted''
   \<and> calls (finalize reverting_env ''0xM1'' (Json one_market, settled_chain)) \<noteq> []
   \<and> send_finalize reverting_env settled_chain ''0xM1'' (wallet_address reverting_env)
       = Reverted ''0xbad2'' ''execution reverted'' settled_chain
   \<and> file_after (finalize reverting_env ''0xM1'' (Json one_market, settled_chain)) = Json one_market
   \<and> last (printed (finalize reverting_env ''0xM1'' (Json one_market, settled_chain)))
       = TX_failed ''execution reverted''"
proof -
  have h1: "calls (settle reverting_env ''0xM1'' 1 (Json one_market, live_chain)) \<noteq> []"
    by (simp add: settler_eval)
  have h2: "send_settle reverting_env live_chain ''0xM1'' (wallet_address reverting_env) 1
        (date_now reverting_env div 1000) = Reverted ''0xbad1'' ''execution reverted'' live_chain"
    by (simp add: settler_eval)
  have h3: "calls (finalize reverting_env ''0xM1'' (Json one_market, settled_chain)) \<noteq> []"
    by (simp add: settler_eval)
  have h4: "send_finalize reverting_env settled_chain ''0xM1'' (wallet_address reverting_env)
       = Reverted ''0xbad2'' ''execution reverted'' settled_chain"
    by (simp add: settler_eval)
  from h1 h2 h3 h4
    failed_transaction_leaves_store [of reverting_env "''0xM1''" 1 "Json one_market" live_chain
       "''execution reverted''" "''0xbad1''" live_chain settled_chain "''0xbad2''" settled_chain]
  show ?thesis by blast
qed

section \<open>The adjudicator check\<close>

lemma settle_sent_ours:
  "calls (settle E a oc (f, c)) \<noteq> [] \<Longrightarrow>
     \<exists>v. view E c a = Inr v \<and> toLowerCase (adjudicator v) = toLowerCase (wallet_address E)"
proof -
  assume "calls (settle E a oc (f, c)) \<noteq> []"
  then obtain st where st: "getMarketStatus E c a = Inr st" and "s_isOurs st"
    by (auto simp: settle_guard split: sum.splits)
  with status_fields[OF st] show ?thesis by auto
qed

lemma settle_not_ours:
  assumes "view E c a = Inr v"
    and "toLowerCase (adjudicator v) \<noteq> toLowerCase (wallet_address E)"
  shows "calls (settle E a oc (f, c)) = []"
    and "\<forall>st. getMarketStatus E c a = Inr st \<longrightarrow>
           last (printed (settle E a oc (f, c))) = Not_our_market (Val (adjudicator v))"
proof -
  have ours: "\<And>st. getMarketStatus E c a = Inr st \<Longrightarrow> \<not> s_isOurs st \<and> s_adjudicator st = adjudicator v"
    using status_fields assms by fastforce
  then show "calls (settle E a oc (f, c)) = []"
    by (auto simp: settle_guard split: sum.splits)
  show "\<forall>st. getMarketStatus E c a = Inr st \<longrightarrow>
           last (printed (settle E a oc (f, c))) = Not_our_market (Val (adjudicator v))"
    using ours by (auto simp: settle_def Let_def)
qed

text \<open>
  C7. \<open>settle\<close> invokes the contract only if the read succeeded and the adjudicator
  address registered on-chain equals the wallet's address (as addresses: compared after
  \<open>toLowerCase\<close>). When they differ, \<open>settle\<close> invokes nothing, leaves the markets file
  and the chain as they were, and, the read having succeeded, ends on the line
  that names the foreign adjudicator.
\<close>

theorem adjudicator_checked_before_settle:
  "(calls (settle E a oc (f, c)) \<noteq> [] \<longrightarrow>
      (\<exists>v. view E c a = Inr v \<and> toLowerCase (adjudicator v) = toLowerCase (wallet_address E)))
   \<and> (view E d a = Inr v \<and> toLowerCase (adjudicator v) \<noteq> toLowerCase (wallet_address E) \<longrightarrow>
        calls (settle E a oc (f, d)) = []
        \<and> file_after (settle E a oc (f, d)) = f
        \<and> chain_after (settle E a oc (f, d)) = d
        \<and> (\<forall>st. getMarketStatus E d a = Inr st \<longrightarrow>
              last (printed (settle E a oc (f, d))) = Not_our_market (Val (adjudicator v))))"
proof (intro conjI impI)
  assume "calls (settle E a oc (f, c)) \<noteq> []"
  then show "\<exists>v. view E c a = Inr v \<and> toLowerCase (adjudicator v) = toLowerCase (wallet_address E)"
    by (rule settle_sent_ours)
next
  assume h: "view E d a = Inr v \<and> toLowerCase (adjudicator v) \<noteq> toLowerCase (wallet_address E)"
  then show q: "calls (settle E a oc (f, d)) = []" by (simp add: settle_not_ours(1))
  from q show "file_after (settle E a oc (f, d)) = f" by (simp add: settle_quiet)
  from q show "chain_after (settle E a oc (f, d)) = d" by (simp add: settle_quiet)
  from h have h1: "view E d a = Inr v"
    and h2: "toLowerCase (adjudicator v) \<noteq> toLowerCase (wallet_address E)" by simp_all
  show "\<forall>st. getMarketStatus E d a = Inr st \<longrightarrow>
              last (printed (settle E a oc (f, d))) = Not_our_market (Val (adjudicator v))"
    by (rule settle_not_ours(2) [OF h1 h2])
qed

text \<open>C7 at a market we adjudicate and at a market registered to another address.\<close>

theorem adjudicator_checked_before_settle_witness:
  "calls (settle honest_env ''0xM1'' 1 (Json one_market, live_chain)) \<noteq> []
   \<and> toLowerCase (adjudicator live_chain) = toLowerCase (wallet_address honest_env)
   \<and> view honest_env foreign_chain ''0xM1'' = Inr foreign_chain
   \<and> toLowerCase (adjudicator foreign_chain) \<noteq> toLowerCase (wallet_address honest_env)
   \<and> calls (settle honest_env ''0xM1'' 1 (Json one_market, foreign_chain)) = []
   \<and> file_after (settle honest_env ''0xM1'' 1 (Json one_market, foreign_chain)) = Json one_market
   \<and> last (printed (settle honest_env ''0xM1'' 1 (Json one_market, foreign_chain)))
       = Not_our_market (Val ''0xFfFf'')"
proof -
  have h1: "calls (settle honest_env ''0xM1'' 1 (Json one_market, live_chain)) \<noteq> []"
    by (simp add: settler_eval)
  have h2: "view honest_env foreign_chain ''0xM1'' = Inr foreign_chain"
    by (simp add: settler_eval)
  have h3: "toLowerCase (adjudicator foreign_chain) \<noteq> toLowerCase (wallet_address honest_env)"
    by (simp add: settler_eval)
  have h4: "view honest_env live_chain ''0xM1'' = Inr live_chain"
    by (simp add: settler_eval)
  have h5: "\<exists>st. getMarketStatus honest_env foreign_chain ''0xM1'' = Inr st"
    by (simp add: settler_eval)
  have h6: "adjudicator foreign_chain = ''0xFfFf''"
    by (simp add: settler_eval)
  from h1 h2 h3 h4 h5 h6
    adjudicator_checked_before_settle [of honest_env "''0xM1''" 1 "Json one_market" live_chain
       foreign_chain foreign_chain]
  show ?thesis by (metis sum.inject(2))
qed

section \<open>The outcome encoding at the chain boundary\<close>

lemma OUTCOMES_table:
  "at_index OUTCOMES n =
     (if n = 0 then Val ''NO'' else if n = 1 then Val ''YES''
      else if n = 2 then Val ''INVALID'' else Undefined)"
proof -
  have "0 \<le> n \<and> nat n < 3 \<longleftrightarrow> n = 0 \<or> n = 1 \<or> n = 2" by auto
  then show ?thesis by (auto simp: at_index_def OUTCOMES_def)
qed

lemma status_outcome:
  "getMarketStatus E c a = Inr st \<Longrightarrow>
     s_outcome st = (if s_isSettled st
                     then (case view_outcome E c a of
                             Inr k \<Rightarrow> at_index OUTCOMES (int k) | Inl _ \<Rightarrow> Null)
                     else Null)"
  by (auto simp: getMarketStatus_def split: sum.splits if_splits)

lemma settle_passes_outcome:
  "set (calls (settle E a oc (f, c))) \<subseteq> {SettleCall a oc (date_now E div 1000)}"
  by (auto simp: settle_def Let_def saveMarkets_def split: run_splits)

lemma settle_announces:
  "printed (settle E a oc (f, c)) ! 1 = Outcome_line oc (at_index OUTCOMES oc)"
  by (auto simp: settle_def Let_def saveMarkets_def split: run_splits)

text \<open>
  C4. The settler's table reads \<open>0\<close> as NO, \<open>1\<close> as YES, \<open>2\<close> as INVALID and nothing
  else. The outcome shown by a status read is the table's entry for the number the
  contract returns (and \<open>null\<close> while the market is not settled); the number given to
  \<open>settle\<close> is handed to the contract as it is, and the label printed for it is the
  table's entry.
\<close>

theorem outcome_encoding:
  "at_index OUTCOMES n =
     (if n = 0 then Val ''NO'' else if n = 1 then Val ''YES''
      else if n = 2 then Val ''INVALID'' else Undefined)
   \<and> (getMarketStatus E c a = Inr st \<longrightarrow>
        s_outcome st = (if s_isSettled st
                        then (case view_outcome E c a of
                                Inr k \<Rightarrow> at_index OUTCOMES (int k) | Inl _ \<Rightarrow> Null)
                        else Null))
   \<and> set (calls (settle E a oc (f, c))) \<subseteq> {SettleCall a oc (date_now E div 1000)}
   \<and> printed (settle E a oc (f, c)) ! 1 = Outcome_line oc (at_index OUTCOMES oc)"
proof (intro conjI impI)
  show "at_index OUTCOMES n =
     (if n = 0 then Val ''NO'' else if n = 1 then Val ''YES''
      else if n = 2 then Val ''INVALID'' else Undefined)"
    by (rule OUTCOMES_table)
  show "set (calls (settle E a oc (f, c))) \<subseteq> {SettleCall a oc (date_now E div 1000)}"
    by (rule settle_passes_outcome)
  show "printed (settle E a oc (f, c)) ! 1 = Outcome_line oc (at_index OUTCOMES oc)"
    by (rule settle_announces)
next
  assume "getMarketStatus E c a = Inr st"
  then show "s_outcome st = (if s_isSettled st
                        then (case view_outcome E c a of
                                Inr k \<Rightarrow> at_index OUTCOMES (int k) | Inl _ \<Rightarrow> Null)
                        else Null)"
    by (rule status_outcome)
qed

text \<open>C4 at a settled market whose on-chain outcome is \<open>1\<close>.\<close>

theorem outcome_encoding_witness:
  "s_isSettled (projr (getMarketStatus honest_env settled_chain ''0xM1''))
   \<and> view_outcome honest_env settled_chain ''0xM1'' = Inr 1
   \<and> s_outcome (projr (getMarketStatus honest_env settled_chain ''0xM1'')) = Val ''YES''
   \<and> at_index OUTCOMES 1 = Val ''YES''"
proof -
  obtain st where st: "getMarketStatus honest_env settled_chain ''0xM1'' = Inr st"
    and s: "s_isSettled st"
    by (simp add: settler_eval)
  have v: "view_outcome honest_env settled_chain ''0xM1'' = Inr 1"
    by (simp add: settler_eval)
  from st s v outcome_encoding [of 1 honest_env settled_chain "''0xM1''" st]
  show ?thesis by simp
qed

section \<open>Local status writes\<close>

lemma map_of_marked:
  "map_of (map (\<lambda>(k, m). (k, g m)) xs) k = map_option g (map_of xs k)"
  by (induction xs) auto

lemma settle_mined_file:
  assumes "calls (settle E a oc (f, c)) \<noteq> []"
    and "send_settle E c a (wallet_address E) oc (date_now E div 1000) = Mined h b c'"
    and "write_fails E = None"
  shows "file_after (settle E a oc (f, c)) = Json (mark_settling a h (loadMarkets f))"
  using assms
  by (auto simp: settle_def Let_def saveMarkets_def split: sum.splits if_splits)

lemma finalize_mined_file:
  assumes "calls (finalize E a (f, c)) \<noteq> []"
    and "send_finalize E c a (wallet_address E) = Mined h b c'"
    and "write_fails E = None"
  shows "file_after (finalize E a (f, c)) = Json (mark_finalized a h (loadMarkets f))"
  using assms
  by (auto simp: finalize_def Let_def saveMarkets_def split: sum.splits if_splits)

lemma settle_file_cases:
  "file_after (settle E a oc (f, c)) = f
   \<or> (\<exists>h. file_after (settle E a oc (f, c)) = Json (mark_settling a h (loadMarkets f)))"
  by (auto simp: settle_def Let_def saveMarkets_def split: run_splits)

lemma finalize_file_cases:
  "file_after (finalize E a (f, c)) = f
   \<or> (\<exists>h. file_after (finalize E a (f, c)) = Json (mark_finalized a h (loadMarkets f)))"
  by (auto simp: finalize_def Let_def saveMarkets_def split: run_splits)

lemma marked_settling_entry:
  "map_of (markets (loadMarkets (Json (mark_settling a h db)))) k =
     map_option (\<lambda>m. if m_market_address m = Some a
                      then m\<lparr>m_status := ''settling'', m_settled_tx := Some h\<rparr> else m)
                (map_of (markets db) k)"
  by (simp add: loadMarkets_def mark_settling_def map_of_marked)

lemma marked_finalized_entry:
  "map_of (markets (loadMarkets (Json (mark_finalized a h db)))) k =
     map_option (\<lambda>m. if m_market_address m = Some a
                      then m\<lparr>m_status := ''finalized'', m_finalized_tx := Some h\<rparr> else m)
                (map_of (markets db) k)"
  by (simp add: loadMarkets_def mark_finalized_def map_of_marked)

lemma settle_other_entry:
  assumes "map_of (markets (loadMarkets f)) k = Some m" and "m_market_address m \<noteq> Some a"
  shows "map_of (markets (loadMarkets (file_after (settle E a oc (f, c))))) k = Some m"
  using settle_file_cases [of E a oc f c] assms
  by (auto simp: marked_settling_entry)

lemma finalize_other_entry:
  assumes "map_of (markets (loadMarkets f)) k = Some m" and "m_market_address m \<noteq> Some a"
  shows "map_of (markets (loadMarkets (file_after (finalize E a (f, c))))) k = Some m"
  using finalize_file_cases [of E a f c] assms
  by (auto simp: marked_finalized_entry)

text \<open>
  C2 as stated fails: no write is checked against the stored status. A market that is
  \<open>open\<close> locally and settled on-chain is written \<open>finalized\<close> by \<open>finalize\<close>, past
  \<open>resolved\<close> and \<open>settled\<close>.
\<close>

theorem finalize_skips_states:
  "m_status open_market = ''open''
   \<and> file_after (finalize honest_env ''0xM1'' (Json one_market, settled_chain))
       = Json \<lparr>markets = [(''mkt_1'', open_market\<lparr>m_status := ''finalized'',
                                                   m_finalized_tx := Some ''0xf17a1''\<rparr>)]\<rparr>"
  by (simp add: settler_eval)

text \<open>
  C2, as amended. After a mined \<open>settle\<close> whose write succeeds, every stored market
  with the given \<open>market_address\<close> has status \<open>settling\<close> and the transaction hash in
  \<open>settled_tx\<close>, whatever its status was; after a mined \<open>finalize\<close>, status \<open>finalized\<close>
  and the hash in \<open>finalized_tx\<close>. No other field changes, and a market with another
  address is never touched by either method.
\<close>

theorem status_written_unchecked:
  "(calls (settle E a oc (f, c)) \<noteq> []
      \<and> send_settle E c a (wallet_address E) oc (date_now E div 1000) = Mined h b c'
      \<and> write_fails E = None
      \<and> map_of (markets (loadMarkets f)) k = Some m \<and> m_market_address m = Some a
    \<longrightarrow> map_of (markets (loadMarkets (file_after (settle E a oc (f, c))))) k
          = Some (m\<lparr>m_status := ''settling'', m_settled_tx := Some h\<rparr>))
   \<and> (calls (finalize E a (f, d)) \<noteq> []
      \<and> send_finalize E d a (wallet_address E) = Mined h2 b2 d'
      \<and> write_fails E = None
      \<and> map_of (markets (loadMarkets f)) k = Some m \<and> m_market_address m = Some a
    \<longrightarrow> map_of (markets (loadMarkets (file_after (finalize E a (f, d))))) k
          = Some (m\<lparr>m_status := ''finalized'', m_finalized_tx := Some h2\<rparr>))
   \<and> (map_of (markets (loadMarkets f)) k2 = Some m2 \<and> m_market_address m2 \<noteq> Some a
    \<longrightarrow> map_of (markets (loadMarkets (file_after (settle E a oc (f, c))))) k2 = Some m2
        \<and> map_of (markets (loadMarkets (file_after (finalize E a (f, d))))) k2 = Some m2)"
proof (intro conjI impI)
  assume "calls (settle E a oc (f, c)) \<noteq> []
      \<and> send_settle E c a (wallet_address E) oc (date_now E div 1000) = Mined h b c'
      \<and> write_fails E = None
      \<and> map_of (markets (loadMarkets f)) k = Some m \<and> m_market_address m = Some a"
  then show "map_of (markets (loadMarkets (file_after (settle E a oc (f, c))))) k
          = Some (m\<lparr>m_status := ''settling'', m_settled_tx := Some h\<rparr>)"
    by (simp add: settle_mined_file marked_settling_entry)
next
  assume "calls (finalize E a (f, d)) \<noteq> []
      \<and> send_finalize E d a (wallet_address E) = Mined h2 b2 d'
      \<and> write_fails E = None
      \<and> map_of (markets (loadMarkets f)) k = Some m \<and> m_market_address m = Some a"
  then show "map_of (markets (loadMarkets (file_after (finalize E a (f, d))))) k
          = Some (m\<lparr>m_status := ''finalized'', m_finalized_tx := Some h2\<rparr>)"
    by (simp add: finalize_mined_file marked_finalized_entry)
next
  assume h: "map_of (markets (loadMarkets f)) k2 = Some m2 \<and> m_market_address m2 \<noteq> Some a"
  then show "map_of (markets (loadMarkets (file_after (settle E a oc (f, c))))) k2 = Some m2"
    by (simp add: settle_other_entry)
  from h show "map_of (markets (loadMarkets (file_after (finalize E a (f, d))))) k2 = Some m2"
    by (simp add: finalize_other_entry)
qed

text \<open>
  C2 at a store whose first market is \<open>finalized\<close> locally while the chain is live:
  \<open>settle\<close> moves it back to \<open>settling\<close>; the second market stays as it is.
\<close>

theorem status_written_unchecked_witness:
  "calls (settle honest_env ''0xM1'' 1 (Json two_markets, live_chain)) \<noteq> []
   \<and> calls (finalize honest_env ''0xM1'' (Json two_markets, settled_chain)) \<noteq> []
   \<and> map_of (markets (loadMarkets (Json two_markets))) ''mkt_1''
       = Some (open_market\<lparr>m_status := ''finalized''\<rparr>)
   \<and> map_of (markets (loadMarkets (file_after
         (settle honest_env ''0xM1'' 1 (Json two_markets, live_chain))))) ''mkt_1''
       = Some (open_market\<lparr>m_status := ''settling'', m_settled_tx := Some ''0x5e771e''\<rparr>)
   \<and> map_of (markets (loadMarkets (file_after
         (finalize honest_env ''0xM1'' (Json two_markets, settled_chain))))) ''mkt_1''
       = Some (open_market\<lparr>m_status := ''finalized'', m_finalized_tx := Some ''0xf17a1''\<rparr>)
   \<and> map_of (markets (loadMarkets (file_after
         (settle honest_env ''0xM1'' 1 (Json two_markets, live_chain))))) ''mkt_2''
       = Some other_market"
proof -
  have h1: "calls (settle honest_env ''0xM1'' 1 (Json two_markets, live_chain)) \<noteq> []"
    by (simp add: settler_eval)
  have h2: "send_settle honest_env live_chain ''0xM1'' (wallet_address honest_env) 1
              (date_now honest_env div 1000) = Mined ''0x5e771e'' 42 settled_chain"
    by (simp add: settler_eval)
  have h3: "write_fails honest_env = None"
    by (simp add: settler_eval)
  have h4: "map_of (markets (loadMarkets (Json two_markets))) ''mkt_1''
              = Some (open_market\<lparr>m_status := ''finalized''\<rparr>)"
    by (simp add: two_markets_def loadMarkets_def)
  have h5: "m_market_address (open_market\<lparr>m_status := ''finalized''\<rparr>) = Some ''0xM1''"
    by (simp add: open_market_def)
  have h6: "calls (finalize honest_env ''0xM1'' (Json two_markets, settled_chain)) \<noteq> []"
    by (simp add: settler_eval)
  have h7: "send_finalize honest_env settled_chain ''0xM1'' (wallet_address honest_env)
              = Mined ''0xf17a1'' 99 finalized_chain"
    by (simp add: settler_eval)
  have h8: "map_of (markets (loadMarkets (Json two_markets))) ''mkt_2'' = Some other_market"
    by (simp add: two_markets_def loadMarkets_def)
  have h9: "m_market_address other_market \<noteq> Some ''0xM1''"
    by (simp add: other_market_def open_market_def)
  from h1 h2 h3 h4 h5 h6 h7 h8 h9
    status_written_unchecked [of honest_env "''0xM1''" 1 "Json two_markets" live_chain
       "''0x5e771e''" 42 settled_chain "''mkt_1''" "open_market\<lparr>m_status := ''finalized''\<rparr>"
       settled_chain "''0xf17a1''" 99 finalized_chain "''mkt_2''" other_market]
  show ?thesis by simp
qed

section \<open>Facts about the market creator\<close>

lemma depositUsdc_value: "depositUsdc = 693000000"
  by (simp add: depositUsdc_def estimatedDeposit_def liquidity_def)

lemmas create_splits =
  sum.splits if_splits tx_outcome.splits option.splits js.splits property.splits

lemma js_get_Absent:
  "js_get obj key = Absent \<longleftrightarrow> map_of obj key = None \<and> key \<notin> set Object_prototype"
  by (simp add: js_get_def split: option.splits)

lemma js_get_Own: "js_get obj key = Own v \<longleftrightarrow> map_of obj key = Some v"
  by (simp add: js_get_def split: option.splits)

lemma create_mapped:
  assumes "map_of (mappings (loadMappings f)) marketId = Some mp"
  shows "calls (create E marketId mf (f, c)) = []"
    and "file_after (create E marketId mf (f, c)) = f"
    and "chain_after (create E marketId mf (f, c)) = c"
  using assms by (simp_all add: create_def Let_def js_get_def split: option.splits)

lemma create_saved:
  assumes "last (printed (create E marketId mf (f, c))) = Mapping_saved"
  shows "\<exists>entry. file_after (create E marketId mf (f, c))
           = Json ((loadMappings f)\<lparr>mappings := AList.update marketId entry (mappings (loadMappings f))\<rparr>)"
  using assms
  by (auto simp: create_def Let_def saveMappings_def split: create_splits)

lemma create_submits_iff:
  "(\<exists>args. CreateMarketCall args \<in> set (calls (create E marketId mf (f, c)))) \<longleftrightarrow>
   (\<exists>market ms. map_of (markets (loadMarkets mf)) marketId = Some market
      \<and> marketId \<notin> set Object_prototype
      \<and> map_of (mappings (loadMappings f)) marketId = None
      \<and> getTime E (m_deadline market) = Some ms
      \<and> date_now E div 1000 < ms div 1000
      \<and> encodable (Some (date_now E div 1000 + 60))
      \<and> encodable (Some (ms div 1000))
      \<and> (\<exists>b. balanceOf E c (wallet_address E) = Inr b \<and> 693000000 \<le> b)
      \<and> (\<exists>h x c1. send_approve E c (wallet_address E) LaunchpadEngine MaxUint256 = Mined h x c1))"
  by (auto simp: create_def Let_def saveMappings_def depositUsdc_value js_get_def
           split: create_splits)

lemmas creator_eval =
  create_def saveMappings_def loadMappings_def loadMarkets_def at_index_def Let_def
  depositUsdc_value creator_env_def logless_env_def virtual_doc_def virtual_market_def
  open_market_def mapped_doc_def feed_mapping_def js_get_def Object_prototype_def
  encodable_def

text \<open>An id that names an inherited member reads as already synced, with no address.\<close>

lemma inherited_id_reads_as_synced:
  "create creator_env ''constructor'' (Json \<lparr>markets = [(''constructor'', virtual_market)]\<rparr>)
      (Missing, 1000000000)
     = \<lparr>file_after = Missing, chain_after = 1000000000, calls = [],
        printed = [Already_synced Undefined]\<rparr>"
  by (simp add: creator_eval)

section \<open>What create checks before it submits\<close>

text \<open>
  C3 as stated fails: \<open>create\<close> submits the creation of a market with no commitment, a
  manual rule and a deadline one day ahead, which meets none of the four criteria.
\<close>

theorem ineligible_market_created:
  "\<not> spec_eligible creator_env virtual_market
   \<and> calls (create creator_env ''mkt_1'' (Json virtual_doc) (Missing, 1000000000))
       = [ApproveCall LaunchpadEngine MaxUint256,
          CreateMarketCall
            \<lparr> a_question = ''@SoothSayer Will BTC hit 75000?'', a_startTime = 1771459260,
              a_deadline = 1771545600, a_adjudicator = ''0xabc1'',
              a_guardian = ProtocolConfig, a_initialLiquidity = liquidity,
              a_adjudicatorAgentId = 0, a_adjudicatorMinValidators = 0 \<rparr>]"
  by (simp add: creator_eval spec_eligible_def)

text \<open>
  C3, as amended. \<open>create\<close> hands a \<open>createMarket\<close> transaction to the wallet (which
  then rejects it or sends it) exactly when the market id is an own
  entry of the markets file and names no member of \<open>Object.prototype\<close>, no mapping
  exists for it, its deadline parses and lies after now in whole seconds, the start
  time (now plus 60 seconds) and the deadline are numbers ethers can encode, the
  wallet's USDC balance is at least 693000000 (693 USDC) and the approval is mined.
  Commitments, agents, the seven-day margin and the rule's source are not read.
\<close>

theorem creation_guards:
  "(\<exists>args. CreateMarketCall args \<in> set (calls (create E marketId mf (f, c)))) \<longleftrightarrow>
   (\<exists>market ms. map_of (markets (loadMarkets mf)) marketId = Some market
      \<and> marketId \<notin> set Object_prototype
      \<and> map_of (mappings (loadMappings f)) marketId = None
      \<and> getTime E (m_deadline market) = Some ms
      \<and> date_now E div 1000 < ms div 1000
      \<and> encodable (Some (date_now E div 1000 + 60))
      \<and> encodable (Some (ms div 1000))
      \<and> (\<exists>b. balanceOf E c (wallet_address E) = Inr b \<and> 693000000 \<le> b)
      \<and> (\<exists>h x c1. send_approve E c (wallet_address E) LaunchpadEngine MaxUint256 = Mined h x c1))"
  by (rule create_submits_iff)

text \<open>C3 at the local market, with a balance of 1000 USDC.\<close>

theorem creation_guards_witness:
  "map_of (markets (loadMarkets (Json virtual_doc))) ''mkt_1'' = Some virtual_market
   \<and> ''mkt_1'' \<notin> set Object_prototype
   \<and> map_of (mappings (loadMappings Missing)) ''mkt_1'' = None
   \<and> getTime creator_env (m_deadline virtual_market) = Some 1771545600000
   \<and> date_now creator_env div 1000 < 1771545600000 div 1000
   \<and> encodable (Some (date_now creator_env div 1000 + 60))
   \<and> encodable (Some (1771545600000 div 1000))
   \<and> balanceOf creator_env 1000000000 (wallet_address creator_env) = Inr 1000000000
   \<and> send_approve creator_env 1000000000 (wallet_address creator_env) LaunchpadEngine MaxUint256
       = Mined ''0xa1'' () 1000000000
   \<and> (\<exists>args. CreateMarketCall args
         \<in> set (calls (create creator_env ''mkt_1'' (Json virtual_doc) (Missing, 1000000000))))"
proof -
  have h1: "map_of (markets (loadMarkets (Json virtual_doc))) ''mkt_1'' = Some virtual_market"
    by (simp add: virtual_doc_def loadMarkets_def)
  have h2: "map_of (mappings (loadMappings Missing)) ''mkt_1'' = None"
    by (simp add: loadMappings_def)
  have h3: "getTime creator_env (m_deadline virtual_market) = Some 1771545600000"
    by (simp add: creator_env_def virtual_market_def open_market_def)
  have h4: "date_now creator_env div 1000 < 1771545600000 div 1000"
    by (simp add: creator_env_def)
  have h5: "balanceOf creator_env 1000000000 (wallet_address creator_env) = Inr 1000000000"
    by (simp add: creator_env_def)
  have h6: "send_approve creator_env 1000000000 (wallet_address creator_env) LaunchpadEngine
              MaxUint256 = Mined ''0xa1'' () 1000000000"
    by (simp add: creator_env_def)
  have h7: "''mkt_1'' \<notin> set Object_prototype"
    by (simp add: Object_prototype_def)
  have h8: "encodable (Some (date_now creator_env div 1000 + 60))"
    by (simp add: creator_env_def encodable_def)
  have h9: "encodable (Some (1771545600000 div 1000))"
    by (simp add: encodable_def)
  from h1 h2 h3 h4 h5 h6 h7 h8 h9
  have "\<exists>market ms. map_of (markets (loadMarkets (Json virtual_doc))) ''mkt_1'' = Some market
      \<and> ''mkt_1'' \<notin> set Object_prototype
      \<and> map_of (mappings (loadMappings Missing)) ''mkt_1'' = None
      \<and> getTime creator_env (m_deadline market) = Some ms
      \<and> date_now creator_env div 1000 < ms div 1000
      \<and> encodable (Some (date_now creator_env div 1000 + 60))
      \<and> encodable (Some (ms div 1000))
      \<and> (\<exists>b. balanceOf creator_env 1000000000 (wallet_address creator_env) = Inr b
              \<and> 693000000 \<le> b)
      \<and> (\<exists>h x c1. send_approve creator_env 1000000000 (wallet_address creator_env)
                     LaunchpadEngine MaxUint256 = Mined h x c1)"
    by (intro exI [of _ virtual_market] exI [of _ 1771545600000]) simp
  then have "\<exists>args. CreateMarketCall args
         \<in> set (calls (create creator_env ''mkt_1'' (Json virtual_doc) (Missing, 1000000000)))"
    by (simp only: creation_guards [of creator_env "''mkt_1''" "Json virtual_doc" Missing 1000000000])
  with h1 h2 h3 h4 h5 h6 h7 h8 h9 show ?thesis by (intro conjI)
qed

section \<open>A mapped market is not submitted again\<close>

lemma saved_then_mapped:
  assumes "last (printed (create E marketId mf (f, c))) = Mapping_saved"
  shows "\<exists>mp. map_of (mappings (loadMappings (file_after (create E marketId mf (f, c))))) marketId
           = Some mp"
proof -
  from create_saved [OF assms] obtain entry where
    "file_after (create E marketId mf (f, c))
       = Json ((loadMappings f)\<lparr>mappings := AList.update marketId entry (mappings (loadMappings f))\<rparr>)"
    by blast
  then show ?thesis by (simp add: loadMappings_def update_conv')
qed

text \<open>
  C6 as stated fails: a creation that is mined with no \<open>MarketCreated\<close> log in its
  receipt saves no mapping, and the next run for the same market id submits the
  creation again.
\<close>

theorem unmapped_creation_resubmitted:
  "calls (create logless_env ''mkt_1'' (Json virtual_doc) (Missing, 2000000000))
     = [ApproveCall LaunchpadEngine MaxUint256,
        CreateMarketCall
          \<lparr> a_question = ''@SoothSayer Will BTC hit 75000?'', a_startTime = 1771459260,
            a_deadline = 1771545600, a_adjudicator = ''0xabc1'',
            a_guardian = ProtocolConfig, a_initialLiquidity = liquidity,
            a_adjudicatorAgentId = 0, a_adjudicatorMinValidators = 0 \<rparr>]
   \<and> last (printed (create logless_env ''mkt_1'' (Json virtual_doc) (Missing, 2000000000)))
       = No_MarketCreated_event
   \<and> file_after (create logless_env ''mkt_1'' (Json virtual_doc) (Missing, 2000000000)) = Missing
   \<and> calls (create logless_env ''mkt_1'' (Json virtual_doc)
              (file_after (create logless_env ''mkt_1'' (Json virtual_doc) (Missing, 2000000000)),
               chain_after (create logless_env ''mkt_1'' (Json virtual_doc) (Missing, 2000000000))))
       = [ApproveCall LaunchpadEngine MaxUint256,
          CreateMarketCall
            \<lparr> a_question = ''@SoothSayer Will BTC hit 75000?'', a_startTime = 1771459260,
              a_deadline = 1771545600, a_adjudicator = ''0xabc1'',
              a_guardian = ProtocolConfig, a_initialLiquidity = liquidity,
              a_adjudicatorAgentId = 0, a_adjudicatorMinValidators = 0 \<rparr>]"
  by (simp add: creator_eval)

text \<open>
  C6, as amended. If the mappings file holds a mapping for the market id when \<open>create\<close>
  is invoked, \<open>create\<close> invokes no contract method (neither the approval nor the
  creation) and leaves the mappings file and the chain as they were; the check comes
  before anything is sent. Hence after a run that saved its mapping, any later run for
  the same id, in any environment, submits nothing and leaves the mappings file as it
  is.
\<close>

theorem mapped_market_not_resubmitted:
  "(map_of (mappings (loadMappings f)) marketId = Some mp \<longrightarrow>
      calls (create E marketId mf (f, c)) = []
      \<and> file_after (create E marketId mf (f, c)) = f
      \<and> chain_after (create E marketId mf (f, c)) = c)
   \<and> (last (printed (create E marketId mf (g, c))) = Mapping_saved \<longrightarrow>
      calls (create E2 marketId mf2 (file_after (create E marketId mf (g, c)), c2)) = []
      \<and> file_after (create E2 marketId mf2 (file_after (create E marketId mf (g, c)), c2))
          = file_after (create E marketId mf (g, c)))"
proof (intro conjI impI)
  assume m: "map_of (mappings (loadMappings f)) marketId = Some mp"
  show "calls (create E marketId mf (f, c)) = []" by (rule create_mapped(1) [OF m])
  show "file_after (create E marketId mf (f, c)) = f" by (rule create_mapped(2) [OF m])
  show "chain_after (create E marketId mf (f, c)) = c" by (rule create_mapped(3) [OF m])
next
  assume "last (printed (create E marketId mf (g, c))) = Mapping_saved"
  from saved_then_mapped [OF this] obtain mp' where
    m: "map_of (mappings (loadMappings (file_after (create E marketId mf (g, c))))) marketId = Some mp'"
    by blast
  show "calls (create E2 marketId mf2 (file_after (create E marketId mf (g, c)), c2)) = []"
    by (rule create_mapped(1) [OF m])
  show "file_after (create E2 marketId mf2 (file_after (create E marketId mf (g, c)), c2))
          = file_after (create E marketId mf (g, c))"
    by (rule create_mapped(2) [OF m])
qed

text \<open>C6 at a mappings file that maps the market, and at two runs in a row.\<close>

theorem mapped_market_not_resubmitted_witness:
  "map_of (mappings (loadMappings (Json mapped_doc))) ''mkt_1'' = Some feed_mapping
   \<and> calls (create creator_env ''mkt_1'' (Json virtual_doc) (Json mapped_doc, 1000000000)) = []
   \<and> file_after (create creator_env ''mkt_1'' (Json virtual_doc) (Json mapped_doc, 1000000000))
       = Json mapped_doc
   \<and> file_after (create creator_env ''mkt_1'' (Json virtual_doc) (Missing, 1000000000))
       = Json mapped_doc
   \<and> last (printed (create creator_env ''mkt_1'' (Json virtual_doc) (Missing, 1000000000)))
       = Mapping_saved
   \<and> calls (create creator_env ''mkt_1'' (Json virtual_doc)
              (file_after (create creator_env ''mkt_1'' (Json virtual_doc) (Missing, 1000000000)),
               307000000)) = []"
proof -
  have h1: "map_of (mappings (loadMappings (Json mapped_doc))) ''mkt_1'' = Some feed_mapping"
    by (simp add: mapped_doc_def loadMappings_def)
  have h2: "last (printed (create creator_env ''mkt_1'' (Json virtual_doc) (Missing, 1000000000)))
       = Mapping_saved"
    by (simp add: creator_eval)
  have h3: "file_after (create creator_env ''mkt_1'' (Json virtual_doc) (Missing, 1000000000))
       = Json mapped_doc"
    by (simp add: creator_eval)
  from h1 h2
    mapped_market_not_resubmitted [of "Json mapped_doc" "''mkt_1''" feed_mapping creator_env
      "Json virtual_doc" 1000000000 Missing creator_env "Json virtual_doc" 307000000]
  have "calls (create creator_env ''mkt_1'' (Json virtual_doc) (Json mapped_doc, 1000000000)) = []
   \<and> file_after (create creator_env ''mkt_1'' (Json virtual_doc) (Json mapped_doc, 1000000000))
       = Json mapped_doc
   \<and> calls (create creator_env ''mkt_1'' (Json virtual_doc)
              (file_after (create creator_env ''mkt_1'' (Json virtual_doc) (Missing, 1000000000)),
               307000000)) = []"
    by blast
  with h1 h2 h3 show ?thesis by blast
qed

section \<open>A store that cannot be read\<close>

lemma settle_reads_empty:
  assumes "f = Missing \<or> f = Unparseable s"
  shows "calls (settle E a oc (f, c)) = calls (settle E a oc (Json \<lparr>markets = []\<rparr>, c))"
    and "printed (settle E a oc (f, c)) = printed (settle E a oc (Json \<lparr>markets = []\<rparr>, c))"
    and "file_after (settle E a oc (f, c)) = f
         \<or> file_after (settle E a oc (f, c)) = Json \<lparr>markets = []\<rparr>"
  using assms
  by (auto simp: settle_def Let_def saveMarkets_def loadMarkets_def mark_settling_def
           split: run_splits)

lemma finalize_reads_empty:
  assumes "f = Missing \<or> f = Unparseable s"
  shows "calls (finalize E a (f, c)) = calls (finalize E a (Json \<lparr>markets = []\<rparr>, c))"
    and "printed (finalize E a (f, c)) = printed (finalize E a (Json \<lparr>markets = []\<rparr>, c))"
    and "file_after (finalize E a (f, c)) = f
         \<or> file_after (finalize E a (f, c)) = Json \<lparr>markets = []\<rparr>"
  using assms
  by (auto simp: finalize_def Let_def saveMarkets_def loadMarkets_def mark_finalized_def
           split: run_splits)

lemma settle_overwrites:
  assumes "f = Missing \<or> f = Unparseable s"
    and "calls (settle E a oc (f, c)) \<noteq> []"
    and "send_settle E c a (wallet_address E) oc (date_now E div 1000) = Mined h b c'"
    and "write_fails E = None"
  shows "file_after (settle E a oc (f, c)) = Json \<lparr>markets = []\<rparr>"
  using assms(1) settle_mined_file [OF assms(2,3,4)]
  by (auto simp: loadMarkets_def mark_settling_def)

lemma create_markets_cong:
  "loadMarkets mf = loadMarkets mf' \<Longrightarrow> create E marketId mf w = create E marketId mf' w"
  by (simp add: create_def)

lemma create_empty_markets:
  "calls (create E marketId (Json \<lparr>markets = []\<rparr>) (f, c)) = []"
  "file_after (create E marketId (Json \<lparr>markets = []\<rparr>) (f, c)) = f"
  "marketId \<notin> set Object_prototype \<Longrightarrow>
     printed (create E marketId (Json \<lparr>markets = []\<rparr>) (f, c)) = [Market_not_found marketId]"
proof -
  let ?r = "create E marketId (Json \<lparr>markets = []\<rparr>) (f, c)"
  have own: "js_get (markets (loadMarkets (Json \<lparr>markets = []\<rparr>))) marketId
               = (if marketId \<in> set Object_prototype then Inherited else Absent)"
    by (simp add: js_get_def loadMarkets_def)
  have absent: "marketId \<notin> set Object_prototype \<Longrightarrow>
      ?r = \<lparr>file_after = f, chain_after = c, calls = [], printed = [Market_not_found marketId]\<rparr>"
    by (simp add: create_def Let_def own)
  have inherited: "marketId \<in> set Object_prototype \<Longrightarrow>
      \<exists>line. ?r = \<lparr>file_after = f, chain_after = c, calls = [], printed = [line]\<rparr>"
  proof -
    assume p: "marketId \<in> set Object_prototype"
    then have "js_get (mappings (loadMappings f)) marketId \<noteq> Absent"
      by (simp add: js_get_Absent)
    then show ?thesis
      by (cases "js_get (mappings (loadMappings f)) marketId")
         (simp_all add: create_def Let_def own p)
  qed
  from absent inherited show "calls ?r = []" by (cases "marketId \<in> set Object_prototype") auto
  from absent inherited show "file_after ?r = f" by (cases "marketId \<in> set Object_prototype") auto
  from absent show "marketId \<notin> set Object_prototype \<Longrightarrow> printed ?r = [Market_not_found marketId]"
    by simp
qed

lemma create_no_markets:
  assumes "mf = Missing \<or> mf = Unparseable s"
  shows "create E marketId mf (f, c) = create E marketId (Json \<lparr>markets = []\<rparr>) (f, c)"
    and "calls (create E marketId mf (f, c)) = []"
    and "file_after (create E marketId mf (f, c)) = f"
    and "marketId \<notin> set Object_prototype \<Longrightarrow>
           printed (create E marketId mf (f, c)) = [Market_not_found marketId]"
proof -
  from assms have "loadMarkets mf = loadMarkets (Json \<lparr>markets = []\<rparr>)"
    by (auto simp: loadMarkets_def)
  from create_markets_cong [OF this]
  show e: "create E marketId mf (f, c) = create E marketId (Json \<lparr>markets = []\<rparr>) (f, c)" .
  show "calls (create E marketId mf (f, c)) = []"
    by (simp only: e create_empty_markets(1))
  show "file_after (create E marketId mf (f, c)) = f"
    by (simp only: e create_empty_markets(2))
  show "printed (create E marketId mf (f, c)) = [Market_not_found marketId]"
    if "marketId \<notin> set Object_prototype"
    using create_empty_markets(3) [OF that, of E f c] by (simp only: e)
qed

lemmas calls_distrib =
  sum.case_distrib [of calls] option.case_distrib [of calls] tx_outcome.case_distrib [of calls]
  property.case_distrib [of calls] js.case_distrib [of calls] if_distrib [of calls]

lemmas printed_distrib =
  sum.case_distrib [of printed] option.case_distrib [of printed]
  tx_outcome.case_distrib [of printed] property.case_distrib [of printed]
  js.case_distrib [of printed] if_distrib [of printed]

lemma create_mappings_cong:
  assumes "loadMappings g = loadMappings g'"
  shows "calls (create E marketId mf (g, c)) = calls (create E marketId mf (g', c))"
    and "printed (create E marketId mf (g, c)) = printed (create E marketId mf (g', c))"
  using assms
  by (simp_all add: create_def Let_def saveMappings_def calls_distrib printed_distrib
        cong: sum.case_cong option.case_cong tx_outcome.case_cong property.case_cong
              js.case_cong if_cong)

lemma create_reads_empty:
  assumes "g = Missing \<or> g = Unparseable s"
  shows "calls (create E marketId mf (g, c))
           = calls (create E marketId mf (Json \<lparr>mappings = [], onchain_only = []\<rparr>, c))"
    and "printed (create E marketId mf (g, c))
           = printed (create E marketId mf (Json \<lparr>mappings = [], onchain_only = []\<rparr>, c))"
proof -
  from assms
  have e: "loadMappings g = loadMappings (Json \<lparr>mappings = [], onchain_only = []\<rparr>)"
    by (auto simp: loadMappings_def)
  show "calls (create E marketId mf (g, c))
           = calls (create E marketId mf (Json \<lparr>mappings = [], onchain_only = []\<rparr>, c))"
    by (rule create_mappings_cong(1) [OF e])
  show "printed (create E marketId mf (g, c))
           = printed (create E marketId mf (Json \<lparr>mappings = [], onchain_only = []\<rparr>, c))"
    by (rule create_mappings_cong(2) [OF e])
qed

lemma create_overwrites:
  assumes "f = Missing \<or> f = Unparseable s"
    and "last (printed (create E marketId mf (f, c))) = Mapping_saved"
  shows "\<exists>entry. file_after (create E marketId mf (f, c))
           = Json \<lparr>mappings = [(marketId, entry)], onchain_only = []\<rparr>"
  using assms(1) create_saved [OF assms(2)]
  by (auto simp: loadMappings_def)

text \<open>
  C10. A markets or mappings file that is missing or does not parse is loaded as the
  empty document. With such a markets file \<open>settle\<close> and \<open>finalize\<close> invoke and print
  what they do on an empty store, and \<open>create\<close> does what it does on an empty store:
  it invokes nothing, and stops at "Market not found" unless the id names a member of
  \<open>Object.prototype\<close>; with such a mappings file \<open>create\<close> invokes and prints what it does when nothing is mapped. The
  next save then replaces the file: a mined \<open>settle\<close> writes the empty markets document over
  it, and a \<open>create\<close> that saves its mapping writes a mappings document holding that
  one entry.
\<close>

theorem unreadable_store_reads_empty:
  "loadMarkets Missing = \<lparr>markets = []\<rparr>
   \<and> loadMarkets (Unparseable s) = \<lparr>markets = []\<rparr>
   \<and> loadMappings Missing = \<lparr>mappings = [], onchain_only = []\<rparr>
   \<and> loadMappings (Unparseable s) = \<lparr>mappings = [], onchain_only = []\<rparr>
   \<and> (f = Missing \<or> f = Unparseable s \<longrightarrow>
        calls (settle E a oc (f, c)) = calls (settle E a oc (Json \<lparr>markets = []\<rparr>, c))
        \<and> printed (settle E a oc (f, c)) = printed (settle E a oc (Json \<lparr>markets = []\<rparr>, c))
        \<and> calls (finalize E a (f, c)) = calls (finalize E a (Json \<lparr>markets = []\<rparr>, c))
        \<and> printed (finalize E a (f, c)) = printed (finalize E a (Json \<lparr>markets = []\<rparr>, c))
        \<and> create D marketId f (g, d) = create D marketId (Json \<lparr>markets = []\<rparr>) (g, d)
        \<and> calls (create D marketId f (g, d)) = []
        \<and> file_after (create D marketId f (g, d)) = g
        \<and> (marketId \<notin> set Object_prototype \<longrightarrow>
              printed (create D marketId f (g, d)) = [Market_not_found marketId]))
   \<and> ((f = Missing \<or> f = Unparseable s)
        \<and> calls (settle E a oc (f, c)) \<noteq> []
        \<and> send_settle E c a (wallet_address E) oc (date_now E div 1000) = Mined h b c'
        \<and> write_fails E = None \<longrightarrow>
        file_after (settle E a oc (f, c)) = Json \<lparr>markets = []\<rparr>)
   \<and> ((g = Missing \<or> g = Unparseable s)
        \<and> last (printed (create D marketId mf (g, d))) = Mapping_saved \<longrightarrow>
        (\<exists>entry. file_after (create D marketId mf (g, d))
                   = Json \<lparr>mappings = [(marketId, entry)], onchain_only = []\<rparr>))
   \<and> (g = Missing \<or> g = Unparseable s \<longrightarrow>
        calls (create D marketId mf (g, d))
          = calls (create D marketId mf (Json \<lparr>mappings = [], onchain_only = []\<rparr>, d))
        \<and> printed (create D marketId mf (g, d))
          = printed (create D marketId mf (Json \<lparr>mappings = [], onchain_only = []\<rparr>, d)))"
proof (intro conjI impI)
  show "loadMarkets Missing = \<lparr>markets = []\<rparr>"
    and "loadMarkets (Unparseable s) = \<lparr>markets = []\<rparr>"
    by (simp_all add: loadMarkets_def)
  show "loadMappings Missing = \<lparr>mappings = [], onchain_only = []\<rparr>"
    and "loadMappings (Unparseable s) = \<lparr>mappings = [], onchain_only = []\<rparr>"
    by (simp_all add: loadMappings_def)
next
  assume u: "f = Missing \<or> f = Unparseable s"
  show "calls (settle E a oc (f, c)) = calls (settle E a oc (Json \<lparr>markets = []\<rparr>, c))"
    by (rule settle_reads_empty(1) [OF u])
  show "printed (settle E a oc (f, c)) = printed (settle E a oc (Json \<lparr>markets = []\<rparr>, c))"
    by (rule settle_reads_empty(2) [OF u])
  show "calls (finalize E a (f, c)) = calls (finalize E a (Json \<lparr>markets = []\<rparr>, c))"
    by (rule finalize_reads_empty(1) [OF u])
  show "printed (finalize E a (f, c)) = printed (finalize E a (Json \<lparr>markets = []\<rparr>, c))"
    by (rule finalize_reads_empty(2) [OF u])
  show "create D marketId f (g, d) = create D marketId (Json \<lparr>markets = []\<rparr>) (g, d)"
    by (rule create_no_markets(1) [OF u])
  show "calls (create D marketId f (g, d)) = []"
    by (rule create_no_markets(2) [OF u])
  show "file_after (create D marketId f (g, d)) = g"
    by (rule create_no_markets(3) [OF u])
  show "printed (create D marketId f (g, d)) = [Market_not_found marketId]"
    if "marketId \<notin> set Object_prototype"
    by (rule create_no_markets(4) [OF u that])
next
  assume "(f = Missing \<or> f = Unparseable s)
        \<and> calls (settle E a oc (f, c)) \<noteq> []
        \<and> send_settle E c a (wallet_address E) oc (date_now E div 1000) = Mined h b c'
        \<and> write_fails E = None"
  then show "file_after (settle E a oc (f, c)) = Json \<lparr>markets = []\<rparr>"
    by (elim conjE) (rule settle_overwrites)
next
  assume "(g = Missing \<or> g = Unparseable s)
        \<and> last (printed (create D marketId mf (g, d))) = Mapping_saved"
  then show "\<exists>entry. file_after (create D marketId mf (g, d))
                   = Json \<lparr>mappings = [(marketId, entry)], onchain_only = []\<rparr>"
    by (elim conjE) (rule create_overwrites)
next
  assume u: "g = Missing \<or> g = Unparseable s"
  show "calls (create D marketId mf (g, d))
          = calls (create D marketId mf (Json \<lparr>mappings = [], onchain_only = []\<rparr>, d))"
    by (rule create_reads_empty(1) [OF u])
  show "printed (create D marketId mf (g, d))
          = printed (create D marketId mf (Json \<lparr>mappings = [], onchain_only = []\<rparr>, d))"
    by (rule create_reads_empty(2) [OF u])
qed

text \<open>C10 at a truncated markets file and at a truncated mappings file.\<close>

theorem unreadable_store_reads_empty_witness:
  "calls (settle honest_env ''0xM1'' 1 (Unparseable ''{ markets: '', live_chain))
     = [SettleCall ''0xM1'' 1 1771632000]
   \<and> send_settle honest_env live_chain ''0xM1'' (wallet_address honest_env) 1
        (date_now honest_env div 1000) = Mined ''0x5e771e'' 42 settled_chain
   \<and> write_fails honest_env = None
   \<and> file_after (settle honest_env ''0xM1'' 1 (Unparseable ''{ markets: '', live_chain))
       = Json \<lparr>markets = []\<rparr>
   \<and> ''mkt_1'' \<notin> set Object_prototype
   \<and> printed (create creator_env ''mkt_1'' (Unparseable ''{ markets: '')
                (Json mapped_doc, 1000000000)) = [Market_not_found ''mkt_1'']
   \<and> last (printed (create creator_env ''mkt_1'' (Json virtual_doc)
                       (Unparseable ''{ markets: '', 1000000000))) = Mapping_saved
   \<and> (\<exists>entry. file_after (create creator_env ''mkt_1'' (Json virtual_doc)
                              (Unparseable ''{ markets: '', 1000000000))
                 = Json \<lparr>mappings = [(''mkt_1'', entry)], onchain_only = []\<rparr>)"
proof -
  have h0: "calls (settle honest_env ''0xM1'' 1 (Json \<lparr>markets = []\<rparr>, live_chain))
              = [SettleCall ''0xM1'' 1 1771632000]"
    by (simp add: settler_eval)
  have h1: "send_settle honest_env live_chain ''0xM1'' (wallet_address honest_env) 1
        (date_now honest_env div 1000) = Mined ''0x5e771e'' 42 settled_chain"
    by (simp add: settler_eval)
  have h2: "write_fails honest_env = None"
    by (simp add: settler_eval)
  have h3: "last (printed (create creator_env ''mkt_1'' (Json virtual_doc)
                       (Unparseable ''{ markets: '', 1000000000))) = Mapping_saved"
    by (simp add: creator_eval)
  note t = unreadable_store_reads_empty [of "''{ markets: ''" "Unparseable ''{ markets: ''"
      honest_env "''0xM1''" 1 live_chain creator_env "''mkt_1''" "Unparseable ''{ markets: ''"
      1000000000 "''0x5e771e''" 42 settled_chain "Json virtual_doc"]
  note t5 = t [THEN conjunct2, THEN conjunct2, THEN conjunct2, THEN conjunct2, THEN conjunct1]
  note t6 = t [THEN conjunct2, THEN conjunct2, THEN conjunct2, THEN conjunct2, THEN conjunct2,
               THEN conjunct1]
  note t7 = t [THEN conjunct2, THEN conjunct2, THEN conjunct2, THEN conjunct2, THEN conjunct2,
               THEN conjunct2, THEN conjunct1]
  from t5 have "calls (settle honest_env ''0xM1'' 1 (Unparseable ''{ markets: '', live_chain))
     = calls (settle honest_env ''0xM1'' 1 (Json \<lparr>markets = []\<rparr>, live_chain))"
    by simp
  with h0 have c2: "calls (settle honest_env ''0xM1'' 1 (Unparseable ''{ markets: '', live_chain))
     = [SettleCall ''0xM1'' 1 1771632000]" by simp
  from t6 c2 h1 h2 have c4:
    "file_after (settle honest_env ''0xM1'' 1 (Unparseable ''{ markets: '', live_chain))
       = Json \<lparr>markets = []\<rparr>" by simp
  from t7 h3 have c5: "\<exists>entry. file_after (create creator_env ''mkt_1'' (Json virtual_doc)
                              (Unparseable ''{ markets: '', 1000000000))
                 = Json \<lparr>mappings = [(''mkt_1'', entry)], onchain_only = []\<rparr>" by simp
  have h4: "''mkt_1'' \<notin> set Object_prototype"
    by (simp add: Object_prototype_def)
  note t5' = unreadable_store_reads_empty [of "''{ markets: ''" "Unparseable ''{ markets: ''"
      honest_env "''0xM1''" 1 live_chain creator_env "''mkt_1''" "Json mapped_doc"
      1000000000 "''0x5e771e''" 42 settled_chain "Json virtual_doc",
      THEN conjunct2, THEN conjunct2, THEN conjunct2, THEN conjunct2, THEN conjunct1]
  have un: "Unparseable ''{ markets: '' = (Missing :: markets_doc stored)
              \<or> Unparseable ''{ markets: '' = (Unparseable ''{ markets: '' :: markets_doc stored)"
    by simp
  note t5'' = mp [OF t5' un, THEN conjunct2, THEN conjunct2, THEN conjunct2, THEN conjunct2,
                  THEN conjunct2, THEN conjunct2, THEN conjunct2]
  have c6: "printed (create creator_env ''mkt_1'' (Unparseable ''{ markets: '')
                (Json mapped_doc, 1000000000)) = [Market_not_found ''mkt_1'']"
    by (rule mp [OF t5'' h4])
  from c2 h1 h2 c4 h4 c6 h3 c5 show ?thesis by (intro conjI)
qed

section \<open>The parser does not validate\<close>















section \<open>The Brier score\<close>

text \<open>
  C9. On a YES or NO outcome the score of a commitment with confidence \<open>c\<close> is
  \<open>1 - (c / 100 - o)\<^sup>2\<close>, where \<open>o\<close> is \<open>1\<close> if its position is the winning outcome and
  \<open>0\<close> otherwise. A YES at 75 scores 0.9375 when YES wins and 0.4375 when NO wins; a
  YES at 50 scores 0.75 either way.
\<close>

theorem brier_score:
  "score c YES = Some (1 - (real_of_int (confidence c) / 100
                            - (if position c = ''YES'' then 1 else 0))\<^sup>2)
   \<and> score c NO = Some (1 - (real_of_int (confidence c) / 100
                             - (if position c = ''NO'' then 1 else 0))\<^sup>2)
   \<and> score \<lparr>agent = a, position = ''YES'', confidence = 75\<rparr> YES = Some 0.9375
   \<and> score \<lparr>agent = a, position = ''YES'', confidence = 75\<rparr> NO = Some 0.4375
   \<and> score \<lparr>agent = a, position = ''YES'', confidence = 50\<rparr> YES = Some 0.75
   \<and> score \<lparr>agent = a, position = ''YES'', confidence = 50\<rparr> NO = Some 0.75"
  by (simp add: score_def label_def power2_eq_square)

end
